theory Spec2Isabelle
  imports Main "HOL-Library.Word"
begin

section \<open>Data model of package invoke (txnhandler.go)\<close>

text \<open>
  The handlers of \<^verbatim>\<open>pkg/client/channel/invoke/txnhandler.go\<close> mutate a shared
  \<^verbatim>\<open>*RequestContext\<close> and call three collaborators held by the \<^verbatim>\<open>*ClientContext\<close>
  (selection service, transactor, event service). The embedding passes the request
  context explicitly and returns it updated, together with the list of events the call
  produced: every collaborator call, every entry into a handler and every assignment to
  \<^verbatim>\<open>requestContext.Error\<close>, in program order.
\<close>

type_synonym int32 = "32 word"

text \<open>\<^verbatim>\<open>[]byte\<close>; a nil slice and an empty slice are both the empty list
  (\<^verbatim>\<open>bytes.Compare\<close> and \<^verbatim>\<open>len\<close> do not tell them apart).\<close>

type_synonym bytes = "8 word list"

text \<open>\<^verbatim>\<open>fab.Peer\<close> is an interface declared outside this file; a peer is
  represented by its name.\<close>

type_synonym Peer = string

type_synonym TxnHeader = string
type_synonym Transaction = string
type_synonym TransactionResponse = string
type_synonym Registration = nat

text \<open>Constants of package \<^verbatim>\<open>status\<close> used by this file (group and code of a
  \<^verbatim>\<open>status.Status\<close>). Their numeric values are declared outside this file and no
  handler depends on them.\<close>

datatype Group = ClientStatus | EndorserClientStatus | EventServerStatus

datatype Code = NoPeersFound | EndorsementMismatch

datatype code32 = ToInt32 Code | Int32 int32

text \<open>
  Go \<^verbatim>\<open>error\<close> values. \<open>Status_New g c m\<close> is \<^verbatim>\<open>status.New(g, c, m, nil)\<close>;
  \<open>Errors_WithMessage\<close>, \<open>Errors_Wrap\<close> and \<open>Errors_New\<close> are the constructors of
  \<^verbatim>\<open>github.com/pkg/errors\<close>, which keep the cause and add a message;
  \<open>CollaboratorError\<close> is an error returned by a collaborator.

  Modelled from the spec: \<^verbatim>\<open>status.NewFromProposalResponse\<close> is declared outside
  this file; the error it builds "carries the offending endorser's identity and the
  peer-reported status/message", which is what \<open>Status_FromProposalResponse\<close> holds.
\<close>

datatype error =
    Status_New Group code32 string
  | Status_FromProposalResponse string int32 string
  | Errors_WithMessage error string
  | Errors_Wrap error string
  | Errors_New string
  | CollaboratorError string

text \<open>\<^verbatim>\<open>invoke.Request\<close>.\<close>

record Request =
  ChaincodeID :: string
  Fcn :: string
  Args :: "bytes list"
  TransientMap :: "(string \<times> bytes) list"

text \<open>\<^verbatim>\<open>fab.ChaincodeInvokeRequest\<close>, built field by field from the request.\<close>

record ChaincodeInvokeRequest =
  cir_ChaincodeID :: string
  cir_Fcn :: string
  cir_Args :: "bytes list"
  cir_TransientMap :: "(string \<times> bytes) list"

text \<open>\<^verbatim>\<open>fab.TransactionProposal\<close>: the transaction identifier and the proposal.\<close>

record TransactionProposal =
  TxnID :: string
  ProposalBytes :: bytes

text \<open>
  Modelled from the spec: \<^verbatim>\<open>fab.TransactionProposalResponse\<close> and the protobuf
  response inside it are declared outside this file. An endorsement response is "one
  peer's signed verdict (status code + response payload + endorser identity)"; the
  fields read here are \<^verbatim>\<open>r.Endorser\<close> and, through
  \<^verbatim>\<open>r.ProposalResponse.GetResponse()\<close>, \<^verbatim>\<open>Status\<close>, \<^verbatim>\<open>Message\<close> and \<^verbatim>\<open>Payload\<close>.
  Every element of a response list is such a verdict: a nil element, or one without
  its protobuf response, is not a value of this type.
\<close>

record TransactionProposalResponse =
  Endorser :: string
  resp_Status :: int32
  resp_Message :: string
  resp_Payload :: bytes

text \<open>\<^verbatim>\<open>fab.TransactionRequest\<close>.\<close>

record TransactionRequest =
  tr_Proposal :: "TransactionProposal option"
  tr_ProposalResponses :: "TransactionProposalResponse list"

text \<open>\<^verbatim>\<open>fab.TxStatusEvent\<close>: the notification delivered on the status channel.\<close>

record TxStatusEvent =
  ev_TxID :: string
  ev_TxValidationCode :: int32

text \<open>\<^verbatim>\<open>invoke.Response\<close>. \<open>Proposal\<close> is a pointer: \<open>None\<close> is nil.\<close>

record Response =
  Proposal :: "TransactionProposal option"
  TransactionID :: string
  Responses :: "TransactionProposalResponse list"
  Payload :: bytes
  TxValidationCode :: int32

text \<open>
  The cancellation signal \<^verbatim>\<open>requestContext.Ctx\<close>, as far as the \<^verbatim>\<open>select\<close> of the
  commit handler observes it: \<^verbatim>\<open>Done()\<close> is never closed, is closed before a status
  notification can be received (or is the case \<^verbatim>\<open>select\<close> picks when both are ready),
  or is closed only later.
\<close>

datatype Context = NeverDone | DoneFirst | DoneLater

datatype Opt = WithPeerFilter "Peer \<Rightarrow> bool"

text \<open>\<^verbatim>\<open>invoke.RequestContext\<close>; \<open>Targets\<close> is \<^verbatim>\<open>Opts.Targets\<close>, \<open>Error\<close> is the
  terminal error (\<open>None\<close> is nil), \<open>SelectionFilter\<close> is a function value or nil.\<close>

record RequestContext =
  Request :: Request
  Targets :: "Peer list"
  SelectionFilter :: "(Peer \<Rightarrow> bool) option"
  Response :: Response
  Error :: "error option"
  Ctx :: Context

text \<open>
  \<^verbatim>\<open>invoke.ClientContext\<close>: the collaborators, each method as the function from its
  arguments to what it returns. \<open>CreateChaincodeInvokeProposal\<close> is the function of
  package \<^verbatim>\<open>txn\<close>, \<open>VerifySignatures\<close> what the signature-validation stage checks; both
  are declared outside this file. \<open>SendTransactionProposal\<close> returns the responses and
  the error as Go does, both at once. \<open>RegisterTxStatusEvent\<close> returns the registration
  and the status channel; the channel is the notification that will arrive on it, if
  any.
\<close>

record ClientContext =
  GetEndorsersForChaincode :: "string list \<Rightarrow> Opt list \<Rightarrow> error + Peer list"
  CreateTransactionHeader :: "error + TxnHeader"
  CreateChaincodeInvokeProposal ::
    "TxnHeader \<Rightarrow> ChaincodeInvokeRequest \<Rightarrow> error + TransactionProposal"
  SendTransactionProposal ::
    "TransactionProposal \<Rightarrow> Peer list \<Rightarrow> TransactionProposalResponse list \<times> error option"
  CreateTransaction :: "TransactionRequest \<Rightarrow> error + Transaction"
  SendTransaction :: "Transaction \<Rightarrow> error + TransactionResponse"
  RegisterTxStatusEvent :: "string \<Rightarrow> error + (Registration \<times> TxStatusEvent option)"
  VerifySignatures :: "TransactionProposalResponse list \<Rightarrow> error option"

subsection \<open>Events\<close>

datatype call =
    CallGetEndorsersForChaincode "string list" "Opt list"
  | CallCreateTransactionHeader
  | CallCreateChaincodeInvokeProposal TxnHeader ChaincodeInvokeRequest
  | CallSendTransactionProposal TransactionProposal "Peer list"
  | CallCreateTransaction TransactionRequest
  | CallSendTransaction Transaction
  | CallRegisterTxStatusEvent string
  | CallUnregister Registration

datatype Stage =
    TargetResolution | Endorsement | EndorsementValidation | SignatureValidation
  | CommitAndConfirm | CallerSupplied

datatype event = Enter Stage | Call call | SetError error

text \<open>How a call of \<^verbatim>\<open>Handle\<close> ends: it returns, it panics (a nil pointer is
  dereferenced), or it never returns (the \<^verbatim>\<open>select\<close> has no ready case, ever).\<close>

datatype ending = Returned | Panicked | Blocked

type_synonym result = "ending \<times> RequestContext \<times> event list"

text \<open>
  \<^verbatim>\<open>Handler\<close> is an interface; its implementations in this file are the four handler
  structs, each with a \<^verbatim>\<open>next Handler\<close> field (\<open>None\<close> is nil).

  Modelled from the spec: \<^verbatim>\<open>SignatureValidationHandler\<close> and its constructor are
  declared in another file of the package; the spec describes signature verification
  as "an opaque, pluggable pipeline stage with the same contract as the others
  (consumes/produces the shared request/response state, may abort the chain)".

  \<open>CallerHandler\<close> is any other implementation of the interface, given by what its
  \<^verbatim>\<open>Handle\<close> does: how it ends, the request context it leaves and the collaborator
  calls it makes.
\<close>

datatype Handler =
    ProposalProcessorHandler "Handler option"
  | EndorsementHandler "Handler option"
  | EndorsementValidationHandler "Handler option"
  | SignatureValidationHandler "Handler option"
  | CommitTxHandler "Handler option"
  | CallerHandler "ClientContext \<Rightarrow> RequestContext \<Rightarrow> ending \<times> RequestContext \<times> call list"

section \<open>Helpers\<close>

text \<open>Constants of the protobuf packages (\<^verbatim>\<open>common.Status_SUCCESS\<close>,
  \<^verbatim>\<open>pb.TxValidationCode_VALID\<close>), declared outside this file, with the values of the
  Fabric protocol; no proof below depends on the values.\<close>

definition Status_SUCCESS :: int32 where
  "Status_SUCCESS = 200"

definition TxValidationCode_VALID :: int32 where
  "TxValidationCode_VALID = 0"

text \<open>\<^verbatim>\<open>bytes.Compare\<close>: lexicographic comparison, -1, 0 or 1.\<close>

fun bytes_Compare :: "bytes \<Rightarrow> bytes \<Rightarrow> int" where
  "bytes_Compare [] [] = 0"
| "bytes_Compare [] (y # ys) = -1"
| "bytes_Compare (x # xs) [] = 1"
| "bytes_Compare (x # xs) (y # ys) =
     (if x < y then -1 else if y < x then 1 else bytes_Compare xs ys)"

definition NewFromProposalResponse :: "TransactionProposalResponse \<Rightarrow> string \<Rightarrow> error" where
  "NewFromProposalResponse r endorser =
     Status_FromProposalResponse endorser (resp_Status r) (resp_Message r)"

text \<open>\<^verbatim>\<open>peer.PeersToTxnProcessors\<close> converts the slice element by element; every
  peer is a proposal processor.\<close>

definition PeersToTxnProcessors :: "Peer list \<Rightarrow> Peer list" where
  "PeersToTxnProcessors peers = peers"

text \<open>Writing the events of a prefix of the body before those of the rest.\<close>

definition emit :: "event list \<Rightarrow> result \<Rightarrow> result" where
  "emit es r = (case r of (s, rc, es') \<Rightarrow> (s, rc, es @ es'))"

text \<open>\<^verbatim>\<open>requestContext.Error = err; return\<close>.\<close>

definition setError :: "error \<Rightarrow> RequestContext \<Rightarrow> result" where
  "setError err rc = (Returned, rc\<lparr>Error := Some err\<rparr>, [SetError err])"

text \<open>\<^verbatim>\<open>defer f()\<close>: the deferred call runs when the function returns and when it
  panics; it does not run while the function never returns.\<close>

definition deferred :: "event \<Rightarrow> result \<Rightarrow> result" where
  "deferred ev r =
     (case r of (s, rc, es) \<Rightarrow> if s = Blocked then (s, rc, es) else (s, rc, es @ [ev]))"

section \<open>The functions of txnhandler.go\<close>

subsection \<open>validate\<close>

text \<open>The loop of \<^verbatim>\<open>validate\<close>: \<open>n\<close> is the index, \<open>a1\<close> the variable \<^verbatim>\<open>a1\<close>.\<close>

fun validate_loop ::
  "nat \<Rightarrow> bytes \<Rightarrow> TransactionProposalResponse list \<Rightarrow> error option" where
  "validate_loop n a1 [] = None"
| "validate_loop n a1 (r # rs) =
     (if resp_Status r \<noteq> Status_SUCCESS then Some (NewFromProposalResponse r (Endorser r))
      else if n = 0 then validate_loop (Suc n) (resp_Payload r) rs
      else if bytes_Compare a1 (resp_Payload r) \<noteq> 0 then
        Some (Status_New EndorserClientStatus (ToInt32 EndorsementMismatch)
                ''ProposalResponsePayloads do not match'')
      else validate_loop (Suc n) a1 rs)"

definition validate :: "TransactionProposalResponse list \<Rightarrow> error option" where
  "validate txProposalResponse = validate_loop 0 [] txProposalResponse"

subsection \<open>createAndSendTransactionProposal, createAndSendTransaction\<close>

text \<open>Both return, first, the collaborator calls they made.\<close>

definition createAndSendTransactionProposal ::
  "ClientContext \<Rightarrow> Request \<Rightarrow> Peer list \<Rightarrow>
     call list \<times> TransactionProposalResponse list \<times> TransactionProposal option \<times> error option"
where
  "createAndSendTransactionProposal transactor chrequest targets =
     (let request = \<lparr>cir_ChaincodeID = ChaincodeID chrequest, cir_Fcn = Fcn chrequest,
                      cir_Args = Args chrequest, cir_TransientMap = TransientMap chrequest\<rparr>
      in case CreateTransactionHeader transactor of
           Inl err \<Rightarrow>
             ([CallCreateTransactionHeader], [], None,
              Some (Errors_WithMessage err ''creating transaction header failed''))
         | Inr txh \<Rightarrow>
             (case CreateChaincodeInvokeProposal transactor txh request of
                Inl err \<Rightarrow>
                  ([CallCreateTransactionHeader, CallCreateChaincodeInvokeProposal txh request],
                   [], None,
                   Some (Errors_WithMessage err ''creating transaction proposal failed''))
              | Inr proposal \<Rightarrow>
                  (case SendTransactionProposal transactor proposal targets of
                     (transactionProposalResponses, err) \<Rightarrow>
                       ([CallCreateTransactionHeader,
                         CallCreateChaincodeInvokeProposal txh request,
                         CallSendTransactionProposal proposal targets],
                        transactionProposalResponses, Some proposal, err))))"

definition createAndSendTransaction ::
  "ClientContext \<Rightarrow> TransactionProposal option \<Rightarrow> TransactionProposalResponse list \<Rightarrow>
     call list \<times> (error + TransactionResponse)"
where
  "createAndSendTransaction sender proposal resps =
     (let txnRequest = \<lparr>tr_Proposal = proposal, tr_ProposalResponses = resps\<rparr>
      in case CreateTransaction sender txnRequest of
           Inl err \<Rightarrow>
             ([CallCreateTransaction txnRequest],
              Inl (Errors_WithMessage err ''CreateTransaction failed''))
         | Inr tx \<Rightarrow>
             (case SendTransaction sender tx of
                Inl err \<Rightarrow>
                  ([CallCreateTransaction txnRequest, CallSendTransaction tx],
                   Inl (Errors_WithMessage err ''SendTransaction failed''))
              | Inr transactionResponse \<Rightarrow>
                  ([CallCreateTransaction txnRequest, CallSendTransaction tx],
                   Inr transactionResponse)))"

subsection \<open>The select statement of the commit handler\<close>

text \<open>
  Which case of the \<^verbatim>\<open>select\<close> runs: a pending notification is received unless
  \<^verbatim>\<open>Done\<close> fires first; with no notification, the \<^verbatim>\<open>Done\<close> case runs as soon as
  \<^verbatim>\<open>Done\<close> fires; with neither, the statement never returns.
\<close>

datatype select_case = CaseStatus TxStatusEvent | CaseDone | NoCase

fun select :: "TxStatusEvent option \<Rightarrow> Context \<Rightarrow> select_case" where
  "select (Some txStatus) NeverDone = CaseStatus txStatus"
| "select (Some txStatus) DoneLater = CaseStatus txStatus"
| "select (Some txStatus) DoneFirst = CaseDone"
| "select None NeverDone = NoCase"
| "select None DoneFirst = CaseDone"
| "select None DoneLater = CaseDone"

subsection \<open>Handle\<close>

fun Handle :: "Handler \<Rightarrow> ClientContext \<Rightarrow> RequestContext \<Rightarrow> result" where
  "Handle (EndorsementHandler nxt) clientContext requestContext =
     emit [Enter Endorsement]
       (if length (Targets requestContext) = 0 then
          setError (Status_New ClientStatus (ToInt32 NoPeersFound) ''targets were not provided'')
            requestContext
        else
          (case createAndSendTransactionProposal clientContext (Request requestContext)
                  (PeersToTxnProcessors (Targets requestContext)) of
             (calls, transactionProposalResponses, proposal, err) \<Rightarrow>
               emit (map Call calls)
                 (case proposal of
                    None \<Rightarrow>
                      (Panicked,
                       requestContext\<lparr>Response := (Response requestContext)\<lparr>Proposal := None\<rparr>\<rparr>,
                       [])
                  | Some p \<Rightarrow>
                      (let rc1 = requestContext\<lparr>Response :=
                                   (Response requestContext)\<lparr>Proposal := Some p,
                                                              TransactionID := TxnID p\<rparr>\<rparr>
                       in case err of
                            Some e \<Rightarrow> setError e rc1
                          | None \<Rightarrow>
                              (let rc2 = rc1\<lparr>Response :=
                                           (Response rc1)\<lparr>Responses := transactionProposalResponses\<rparr>\<rparr>;
                                   rc3 = (case transactionProposalResponses of
                                            [] \<Rightarrow> rc2
                                          | r # _ \<Rightarrow>
                                              rc2\<lparr>Response := (Response rc2)\<lparr>Payload := resp_Payload r\<rparr>\<rparr>)
                               in case nxt of
                                    None \<Rightarrow> (Returned, rc3, [])
                                  | Some h \<Rightarrow> Handle h clientContext rc3)))))"
| "Handle (ProposalProcessorHandler nxt) clientContext requestContext =
     emit [Enter TargetResolution]
       (if length (Targets requestContext) = 0 then
          (let selectionOpts = (case SelectionFilter requestContext of
                                  None \<Rightarrow> []
                                | Some f \<Rightarrow> [] @ [WithPeerFilter f]);
               chaincodeIDs = [ChaincodeID (Request requestContext)]
           in emit [Call (CallGetEndorsersForChaincode chaincodeIDs selectionOpts)]
                (case GetEndorsersForChaincode clientContext chaincodeIDs selectionOpts of
                   Inl err \<Rightarrow>
                     setError (Errors_WithMessage err ''Failed to get endorsing peers'')
                       requestContext
                 | Inr endorsers \<Rightarrow>
                     (case nxt of
                        None \<Rightarrow> (Returned, requestContext\<lparr>Targets := endorsers\<rparr>, [])
                      | Some h \<Rightarrow> Handle h clientContext (requestContext\<lparr>Targets := endorsers\<rparr>))))
        else
          (case nxt of
             None \<Rightarrow> (Returned, requestContext, [])
           | Some h \<Rightarrow> Handle h clientContext requestContext))"
| "Handle (EndorsementValidationHandler nxt) clientContext requestContext =
     emit [Enter EndorsementValidation]
       (case validate (Responses (Response requestContext)) of
          Some err \<Rightarrow>
            setError (Errors_WithMessage err ''endorsement validation failed'') requestContext
        | None \<Rightarrow>
            (case nxt of
               None \<Rightarrow> (Returned, requestContext, [])
             | Some h \<Rightarrow> Handle h clientContext requestContext))"
| "Handle (SignatureValidationHandler nxt) clientContext requestContext =
     emit [Enter SignatureValidation]
       (case VerifySignatures clientContext (Responses (Response requestContext)) of
          Some err \<Rightarrow> setError err requestContext
        | None \<Rightarrow>
            (case nxt of
               None \<Rightarrow> (Returned, requestContext, [])
             | Some h \<Rightarrow> Handle h clientContext requestContext))"
| "Handle (CommitTxHandler nxt) clientContext requestContext =
     (let txnID = TransactionID (Response requestContext)
      in emit [Enter CommitAndConfirm, Call (CallRegisterTxStatusEvent txnID)]
           (case RegisterTxStatusEvent clientContext txnID of
              Inl err \<Rightarrow>
                setError (Errors_Wrap err ''error registering for TxStatus event'') requestContext
            | Inr (reg, statusNotifier) \<Rightarrow>
                deferred (Call (CallUnregister reg))
                  (case createAndSendTransaction clientContext
                          (Proposal (Response requestContext))
                          (Responses (Response requestContext)) of
                     (calls, Inl err) \<Rightarrow>
                       emit (map Call calls)
                         (setError (Errors_Wrap err ''CreateAndSendTransaction failed'')
                            requestContext)
                   | (calls, Inr _) \<Rightarrow>
                       emit (map Call calls)
                         (case select statusNotifier (Ctx requestContext) of
                            CaseStatus txStatus \<Rightarrow>
                              (let rc1 = requestContext\<lparr>Response :=
                                           (Response requestContext)\<lparr>TxValidationCode :=
                                              ev_TxValidationCode txStatus\<rparr>\<rparr>
                               in if ev_TxValidationCode txStatus \<noteq> TxValidationCode_VALID then
                                    setError (Status_New EventServerStatus
                                                (Int32 (ev_TxValidationCode txStatus))
                                                ''received invalid transaction'') rc1
                                  else
                                    (case nxt of
                                       None \<Rightarrow> (Returned, rc1, [])
                                     | Some h \<Rightarrow> Handle h clientContext rc1))
                          | CaseDone \<Rightarrow>
                              setError (Errors_New ''Execute didn't receive block event'')
                                requestContext
                          | NoCase \<Rightarrow> (Blocked, requestContext, [])))))"
| "Handle (CallerHandler f) clientContext requestContext =
     (case f clientContext requestContext of
        (s, rc, calls) \<Rightarrow> (s, rc, Enter CallerSupplied # map Call calls))"

subsection \<open>The chain builders\<close>

definition getNext :: "Handler list \<Rightarrow> Handler option" where
  "getNext nxt = (if length nxt > 0 then Some (nxt ! 0) else None)"

definition NewProposalProcessorHandler :: "Handler list \<Rightarrow> Handler" where
  "NewProposalProcessorHandler nxt = ProposalProcessorHandler (getNext nxt)"

definition NewEndorsementHandler :: "Handler list \<Rightarrow> Handler" where
  "NewEndorsementHandler nxt = EndorsementHandler (getNext nxt)"

definition NewEndorsementValidationHandler :: "Handler list \<Rightarrow> Handler" where
  "NewEndorsementValidationHandler nxt = EndorsementValidationHandler (getNext nxt)"

definition NewCommitHandler :: "Handler list \<Rightarrow> Handler" where
  "NewCommitHandler nxt = CommitTxHandler (getNext nxt)"

text \<open>Modelled from the spec: \<^verbatim>\<open>NewSignatureValidationHandler\<close> is declared in another
  file of the package; like the other builders, it "treats only the first supplied
  one as the continuation".\<close>

definition NewSignatureValidationHandler :: "Handler list \<Rightarrow> Handler" where
  "NewSignatureValidationHandler nxt = SignatureValidationHandler (getNext nxt)"

definition NewQueryHandler :: "Handler list \<Rightarrow> Handler" where
  "NewQueryHandler nxt =
     NewProposalProcessorHandler
       [NewEndorsementHandler
          [NewEndorsementValidationHandler
             [NewSignatureValidationHandler nxt]]]"

definition NewExecuteHandler :: "Handler list \<Rightarrow> Handler" where
  "NewExecuteHandler nxt =
     NewProposalProcessorHandler
       [NewEndorsementHandler
          [NewEndorsementValidationHandler
             [NewSignatureValidationHandler [NewCommitHandler nxt]]]]"

text \<open>\<^verbatim>\<open>if x.next != nil { x.next.Handle(requestContext, clientContext) }\<close>, the
  last statement of every handler.\<close>

definition delegate :: "Handler option \<Rightarrow> ClientContext \<Rightarrow> RequestContext \<Rightarrow> result" where
  "delegate nxt clientContext requestContext =
     (case nxt of
        None \<Rightarrow> (Returned, requestContext, [])
      | Some h \<Rightarrow> Handle h clientContext requestContext)"

section \<open>Observations on handlers and event lists\<close>

text \<open>The stages of a chain, from its head along the \<^verbatim>\<open>next\<close> fields.\<close>

fun stages :: "Handler \<Rightarrow> Stage list" where
  "stages (ProposalProcessorHandler nxt) =
     TargetResolution # (case nxt of None \<Rightarrow> [] | Some h \<Rightarrow> stages h)"
| "stages (EndorsementHandler nxt) =
     Endorsement # (case nxt of None \<Rightarrow> [] | Some h \<Rightarrow> stages h)"
| "stages (EndorsementValidationHandler nxt) =
     EndorsementValidation # (case nxt of None \<Rightarrow> [] | Some h \<Rightarrow> stages h)"
| "stages (SignatureValidationHandler nxt) =
     SignatureValidation # (case nxt of None \<Rightarrow> [] | Some h \<Rightarrow> stages h)"
| "stages (CommitTxHandler nxt) =
     CommitAndConfirm # (case nxt of None \<Rightarrow> [] | Some h \<Rightarrow> stages h)"
| "stages (CallerHandler f) = [CallerSupplied]"

text \<open>The events that are a call of \<^verbatim>\<open>EventService.Unregister\<close>.\<close>

fun is_Unregister :: "event \<Rightarrow> bool" where
  "is_Unregister (Call (CallUnregister reg)) = True"
| "is_Unregister _ = False"

text \<open>After the first assignment to \<^verbatim>\<open>requestContext.Error\<close> nothing happens but
  deferred \<^verbatim>\<open>Unregister\<close> calls: no handler is entered, no collaborator is called, the
  error is not assigned again.\<close>

fun short_circuited :: "event list \<Rightarrow> bool" where
  "short_circuited [] = True"
| "short_circuited (SetError e # es) = list_all is_Unregister es"
| "short_circuited (_ # es) = short_circuited es"

text \<open>The errors assigned to \<^verbatim>\<open>requestContext.Error\<close>, in order.\<close>

fun errors_set :: "event list \<Rightarrow> error list" where
  "errors_set [] = []"
| "errors_set (SetError e # es) = e # errors_set es"
| "errors_set (_ # es) = errors_set es"

text \<open>What the events and the final request context of a call of \<^verbatim>\<open>Handle\<close> satisfy:
  the short circuit above, at most one assignment of the error, that error being the
  one the request context ends with, and a normal return whenever the error was
  assigned.\<close>

definition error_is_final :: "result \<Rightarrow> bool" where
  "error_is_final r =
     (case r of (s, rc, es) \<Rightarrow>
        short_circuited es \<and> length (errors_set es) \<le> 1 \<and>
        list_all (\<lambda>e. Error rc = Some e) (errors_set es) \<and>
        (errors_set es = [] \<or> s = Returned))"

section \<open>Example inputs\<close>

text \<open>An endorsement response, from endorser, status, message and payload.\<close>

definition resp :: "string \<Rightarrow> int32 \<Rightarrow> string \<Rightarrow> bytes \<Rightarrow> TransactionProposalResponse" where
  "resp e s m p = \<lparr>Endorser = e, resp_Status = s, resp_Message = m, resp_Payload = p\<rparr>"

text \<open>Collaborators that all succeed: two endorsers answering "OK" with the same
  payload, and a status notification with code VALID.\<close>

definition example_cc :: ClientContext where
  "example_cc =
     \<lparr>GetEndorsersForChaincode = (\<lambda>ids opts. Inr [''P1'', ''P2'']),
      CreateTransactionHeader = Inr ''header'',
      CreateChaincodeInvokeProposal = (\<lambda>txh req. Inr \<lparr>TxnID = ''tx1'', ProposalBytes = [1]\<rparr>),
      SendTransactionProposal = (\<lambda>p targets. (map (\<lambda>t. resp t 200 ''OK'' [79, 75]) targets, None)),
      CreateTransaction = (\<lambda>req. Inr ''transaction''),
      SendTransaction = (\<lambda>tx. Inr ''ack''),
      RegisterTxStatusEvent = (\<lambda>txid. Inr (7, Some \<lparr>ev_TxID = txid, ev_TxValidationCode = 0\<rparr>)),
      VerifySignatures = (\<lambda>rs. None)\<rparr>"

text \<open>A fresh request context with two explicit targets and no cancellation.\<close>

definition example_rc :: RequestContext where
  "example_rc =
     \<lparr>Request = \<lparr>ChaincodeID = ''cc'', Fcn = ''invoke'', Args = [], TransientMap = []\<rparr>,
      Targets = [''P1'', ''P2''],
      SelectionFilter = None,
      Response = \<lparr>Proposal = None, TransactionID = [], Responses = [], Payload = [],
                  TxValidationCode = 0\<rparr>,
      Error = None,
      Ctx = NeverDone\<rparr>"

text \<open>The same collaborators, with a status notification whose validation code is not
  VALID.\<close>

definition invalid_cc :: ClientContext where
  "invalid_cc = example_cc\<lparr>RegisterTxStatusEvent :=
     (\<lambda>txid. Inr (7, Some \<lparr>ev_TxID = txid, ev_TxValidationCode = 11\<rparr>))\<rparr>"

text \<open>The same collaborators, with an event service that refuses the registration.\<close>

definition no_events_cc :: ClientContext where
  "no_events_cc = example_cc\<lparr>RegisterTxStatusEvent :=
     (\<lambda>txid. Inl (CollaboratorError ''event hub unreachable''))\<rparr>"

text \<open>A request context that holds the given endorsement responses.\<close>

definition responses_rc :: "TransactionProposalResponse list \<Rightarrow> RequestContext" where
  "responses_rc rs = example_rc\<lparr>Response := (Response example_rc)\<lparr>Responses := rs\<rparr>\<rparr>"

text \<open>The same collaborators, with a registration on which no notification ever
  arrives.\<close>

definition silent_cc :: ClientContext where
  "silent_cc = example_cc\<lparr>RegisterTxStatusEvent := (\<lambda>txid. Inr (7, None))\<rparr>"

section \<open>Evaluation of the example inputs\<close>

lemmas ex_simps = example_cc_def example_rc_def resp_def emit_def setError_def deferred_def
  delegate_def createAndSendTransactionProposal_def createAndSendTransaction_def
  PeersToTxnProcessors_def validate_def Status_SUCCESS_def TxValidationCode_VALID_def
  getNext_def NewProposalProcessorHandler_def NewEndorsementHandler_def
  NewEndorsementValidationHandler_def NewSignatureValidationHandler_def NewCommitHandler_def
  NewQueryHandler_def NewExecuteHandler_def Let_def

section \<open>Events of a handler body\<close>

lemma emit_emit: "emit as (emit bs r) = emit (as @ bs) r"
  by (simp add: emit_def split: prod.splits)

lemma emit_triple: "emit as (s, rc, es) = (s, rc, as @ es)"
  by (simp add: emit_def)

lemma emit_setError:
  "emit as (setError err rc) = (Returned, rc\<lparr>Error := Some err\<rparr>, as @ [SetError err])"
  by (simp add: emit_def setError_def)

lemma deferred_triple:
  "deferred ev (s, rc, es) = (if s = Blocked then (s, rc, es) else (s, rc, es @ [ev]))"
  by (simp add: deferred_def)

lemma emit_deferred: "emit as (deferred ev r) = deferred ev (emit as r)"
  by (simp add: emit_def deferred_def split: prod.splits)

text \<open>Each handler, with its last statement written as \<open>delegate\<close>.\<close>

lemma Handle_Endorsement:
  "Handle (EndorsementHandler nxt) cc rc =
     emit [Enter Endorsement]
       (if Targets rc = [] then
          setError (Status_New ClientStatus (ToInt32 NoPeersFound) ''targets were not provided'') rc
        else
          (case createAndSendTransactionProposal cc (Request rc) (Targets rc) of
             (calls, resps, None, err) \<Rightarrow>
               emit (map Call calls) (Panicked, rc\<lparr>Response := (Response rc)\<lparr>Proposal := None\<rparr>\<rparr>, [])
           | (calls, resps, Some p, Some e) \<Rightarrow>
               emit (map Call calls)
                 (setError e (rc\<lparr>Response := (Response rc)\<lparr>Proposal := Some p,
                                                              TransactionID := TxnID p\<rparr>\<rparr>))
           | (calls, resps, Some p, None) \<Rightarrow>
               emit (map Call calls)
                 (delegate nxt cc
                    (rc\<lparr>Response := (Response rc)\<lparr>Proposal := Some p,
                                                     TransactionID := TxnID p,
                                                     Responses := resps,
                                                     Payload := (case resps of [] \<Rightarrow> Payload (Response rc)
                                                                  | r # _ \<Rightarrow> resp_Payload r)\<rparr>\<rparr>))))"
  by (simp add: delegate_def PeersToTxnProcessors_def Let_def
        split: prod.splits option.splits list.splits)

lemma Handle_Commit:
  "Handle (CommitTxHandler nxt) cc rc =
     emit [Enter CommitAndConfirm, Call (CallRegisterTxStatusEvent (TransactionID (Response rc)))]
       (case RegisterTxStatusEvent cc (TransactionID (Response rc)) of
          Inl err \<Rightarrow> setError (Errors_Wrap err ''error registering for TxStatus event'') rc
        | Inr (reg, statusNotifier) \<Rightarrow>
            deferred (Call (CallUnregister reg))
              (emit (map Call (fst (createAndSendTransaction cc (Proposal (Response rc))
                                      (Responses (Response rc)))))
                 (case snd (createAndSendTransaction cc (Proposal (Response rc))
                              (Responses (Response rc))) of
                    Inl err \<Rightarrow> setError (Errors_Wrap err ''CreateAndSendTransaction failed'') rc
                  | Inr ack \<Rightarrow>
                      (case select statusNotifier (Ctx rc) of
                         CaseStatus txStatus \<Rightarrow>
                           if ev_TxValidationCode txStatus \<noteq> TxValidationCode_VALID then
                             setError (Status_New EventServerStatus
                                         (Int32 (ev_TxValidationCode txStatus))
                                         ''received invalid transaction'')
                               (rc\<lparr>Response := (Response rc)\<lparr>TxValidationCode :=
                                                   ev_TxValidationCode txStatus\<rparr>\<rparr>)
                           else
                             delegate nxt cc
                               (rc\<lparr>Response := (Response rc)\<lparr>TxValidationCode :=
                                                   ev_TxValidationCode txStatus\<rparr>\<rparr>)
                       | CaseDone \<Rightarrow>
                           setError (Errors_New ''Execute didn't receive block event'') rc
                       | NoCase \<Rightarrow> (Blocked, rc, [])))))"
  by (auto simp: delegate_def Let_def
           split: prod.splits sum.splits select_case.splits option.splits)

lemma Handle_EndorsementValidation:
  "Handle (EndorsementValidationHandler nxt) cc rc =
     (case validate (Responses (Response rc)) of
        Some err \<Rightarrow>
          (Returned,
           rc\<lparr>Error := Some (Errors_WithMessage err ''endorsement validation failed'')\<rparr>,
           [Enter EndorsementValidation,
            SetError (Errors_WithMessage err ''endorsement validation failed'')])
      | None \<Rightarrow> emit [Enter EndorsementValidation] (delegate nxt cc rc))"
  by (simp add: emit_setError delegate_def split: option.splits)

section \<open>Endorsement validation\<close>

lemma bytes_Compare_eq: "bytes_Compare a b = 0 \<longleftrightarrow> a = b"
  by (induction a b rule: bytes_Compare.induct) auto

lemma validate_loop_pos_append:
  "0 < n \<Longrightarrow> \<forall>p\<in>set pre. resp_Status p = Status_SUCCESS \<and> resp_Payload p = a1 \<Longrightarrow>
   validate_loop n a1 (pre @ rest) = validate_loop (n + length pre) a1 rest"
  by (induction pre arbitrary: n) (auto simp: bytes_Compare_eq)

lemma validate_loop_pos_None:
  "0 < n \<Longrightarrow> validate_loop n a1 rs = None \<longleftrightarrow>
     (\<forall>r\<in>set rs. resp_Status r = Status_SUCCESS \<and> resp_Payload r = a1)"
  by (induction rs arbitrary: n) (auto simp: bytes_Compare_eq)

lemma validate_Cons:
  "validate (r # rs) =
     (if resp_Status r \<noteq> Status_SUCCESS then Some (NewFromProposalResponse r (Endorser r))
      else validate_loop 1 (resp_Payload r) rs)"
  by (simp add: validate_def)

lemma validate_None_iff:
  "validate rs = None \<longleftrightarrow>
     (\<forall>r\<in>set rs. resp_Status r = Status_SUCCESS \<and> resp_Payload r = resp_Payload (hd rs))"
proof (cases rs)
  case Nil
  then show ?thesis by (simp add: validate_def)
next
  case (Cons r rs')
  then show ?thesis by (auto simp: validate_Cons validate_loop_pos_None)
qed

lemma validate_rejects:
  assumes pre: "\<forall>p\<in>set pre. resp_Status p = Status_SUCCESS \<and> resp_Payload p = resp_Payload (hd (pre @ [r]))"
    and r: "resp_Status r \<noteq> Status_SUCCESS"
  shows "validate (pre @ r # post) = Some (NewFromProposalResponse r (Endorser r))"
proof (cases pre)
  case Nil
  with r show ?thesis by (simp add: validate_Cons)
next
  case (Cons p pre')
  with pre have *: "\<forall>q\<in>set pre'. resp_Status q = Status_SUCCESS \<and> resp_Payload q = resp_Payload p"
    and p: "resp_Status p = Status_SUCCESS" by auto
  show ?thesis using p r Cons
    by (simp add: validate_Cons validate_loop_pos_append[OF _ *])
qed

lemma validate_mismatch:
  assumes pre: "\<forall>p\<in>set pre. resp_Status p = Status_SUCCESS \<and> resp_Payload p = resp_Payload (hd (pre @ [r]))"
    and r: "resp_Status r = Status_SUCCESS" "resp_Payload r \<noteq> resp_Payload (hd (pre @ [r]))"
  shows "validate (pre @ r # post) =
           Some (Status_New EndorserClientStatus (ToInt32 EndorsementMismatch)
                   ''ProposalResponsePayloads do not match'')"
proof (cases pre)
  case Nil
  with r show ?thesis by simp
next
  case (Cons p pre')
  with pre have *: "\<forall>q\<in>set pre'. resp_Status q = Status_SUCCESS \<and> resp_Payload q = resp_Payload p"
    and p: "resp_Status p = Status_SUCCESS" by auto
  show ?thesis using p r Cons
    by (simp add: validate_Cons validate_loop_pos_append[OF _ *] bytes_Compare_eq)
qed

text \<open>
  Claim C1. \<^verbatim>\<open>validate\<close> scans the responses in order. Let \<open>pre\<close> be responses that all
  have success status and the payload of the response at index 0, and \<open>r\<close> the response
  after them. If the status of \<open>r\<close> is not success, the result is the error built from
  \<open>r\<close>, with the endorser, status and message of \<open>r\<close>, whatever the later responses
  \<open>post\<close> are. If \<open>r\<close> has success status and a payload that differs from the payload at
  index 0, the result is the endorsement-mismatch error, again whatever \<open>post\<close> is (so a
  later response with a bad status does not change it). And \<^verbatim>\<open>validate\<close> returns nil
  exactly when every response has success status and the payload of the first one.

  The endorsement-validation handler does the same on the responses of the request
  context: in the two failing cases it sets that error, wrapped in "endorsement
  validation failed", as terminal error and returns without entering its next handler;
  it hands the unchanged request context to its next handler when every response has
  success status and the payload of the first one, and otherwise returns with the
  terminal error set to the wrapped error of \<^verbatim>\<open>validate\<close>.
\<close>

theorem validate_first_offender_wins:
  "((\<forall>p\<in>set pre. resp_Status p = Status_SUCCESS \<and>
                  resp_Payload p = resp_Payload (hd (pre @ [r]))) \<longrightarrow>
      (resp_Status r \<noteq> Status_SUCCESS \<longrightarrow>
         validate (pre @ r # post) =
           Some (Status_FromProposalResponse (Endorser r) (resp_Status r) (resp_Message r))) \<and>
      (resp_Status r = Status_SUCCESS \<and> resp_Payload r \<noteq> resp_Payload (hd (pre @ [r])) \<longrightarrow>
         validate (pre @ r # post) =
           Some (Status_New EndorserClientStatus (ToInt32 EndorsementMismatch)
                   ''ProposalResponsePayloads do not match''))) \<and>
   (validate rs = None \<longleftrightarrow>
      (\<forall>x\<in>set rs. resp_Status x = Status_SUCCESS \<and> resp_Payload x = resp_Payload (hd rs))) \<and>
   ((\<forall>p\<in>set pre. resp_Status p = Status_SUCCESS \<and>
                  resp_Payload p = resp_Payload (hd (pre @ [r]))) \<and>
    Responses (Response requestContext) = pre @ r # post \<longrightarrow>
      (resp_Status r \<noteq> Status_SUCCESS \<longrightarrow>
         Handle (EndorsementValidationHandler nxt) clientContext requestContext =
           (Returned,
            requestContext\<lparr>Error := Some (Errors_WithMessage
              (Status_FromProposalResponse (Endorser r) (resp_Status r) (resp_Message r))
              ''endorsement validation failed'')\<rparr>,
            [Enter EndorsementValidation,
             SetError (Errors_WithMessage
               (Status_FromProposalResponse (Endorser r) (resp_Status r) (resp_Message r))
               ''endorsement validation failed'')])) \<and>
      (resp_Status r = Status_SUCCESS \<and> resp_Payload r \<noteq> resp_Payload (hd (pre @ [r])) \<longrightarrow>
         Handle (EndorsementValidationHandler nxt) clientContext requestContext =
           (Returned,
            requestContext\<lparr>Error := Some (Errors_WithMessage
              (Status_New EndorserClientStatus (ToInt32 EndorsementMismatch)
                 ''ProposalResponsePayloads do not match'')
              ''endorsement validation failed'')\<rparr>,
            [Enter EndorsementValidation,
             SetError (Errors_WithMessage
               (Status_New EndorserClientStatus (ToInt32 EndorsementMismatch)
                  ''ProposalResponsePayloads do not match'')
               ''endorsement validation failed'')]))) \<and>
   (if \<forall>x\<in>set (Responses (Response requestContext)).
          resp_Status x = Status_SUCCESS \<and>
          resp_Payload x = resp_Payload (hd (Responses (Response requestContext)))
    then Handle (EndorsementValidationHandler nxt) clientContext requestContext =
           emit [Enter EndorsementValidation] (delegate nxt clientContext requestContext)
    else \<exists>err. validate (Responses (Response requestContext)) = Some err \<and>
           Handle (EndorsementValidationHandler nxt) clientContext requestContext =
             (Returned,
              requestContext\<lparr>Error :=
                Some (Errors_WithMessage err ''endorsement validation failed'')\<rparr>,
              [Enter EndorsementValidation,
               SetError (Errors_WithMessage err ''endorsement validation failed'')]))"
proof -
  let ?ok = "\<forall>p\<in>set pre. resp_Status p = Status_SUCCESS \<and>
                  resp_Payload p = resp_Payload (hd (pre @ [r]))"
  let ?rs = "Responses (Response requestContext)"
  have a: "?ok \<Longrightarrow> resp_Status r \<noteq> Status_SUCCESS \<Longrightarrow>
             validate (pre @ r # post) =
               Some (Status_FromProposalResponse (Endorser r) (resp_Status r) (resp_Message r))"
    using validate_rejects [of pre r post] by (simp add: NewFromProposalResponse_def)
  have b: "?ok \<Longrightarrow> resp_Status r = Status_SUCCESS \<Longrightarrow>
             resp_Payload r \<noteq> resp_Payload (hd (pre @ [r])) \<Longrightarrow>
             validate (pre @ r # post) =
               Some (Status_New EndorserClientStatus (ToInt32 EndorsementMismatch)
                       ''ProposalResponsePayloads do not match'')"
    using validate_mismatch [of pre r post] by simp
  have c: "validate rs = None \<longleftrightarrow>
      (\<forall>x\<in>set rs. resp_Status x = Status_SUCCESS \<and> resp_Payload x = resp_Payload (hd rs))"
    by (rule validate_None_iff)
  have d: "(\<forall>x\<in>set ?rs. resp_Status x = Status_SUCCESS \<and> resp_Payload x = resp_Payload (hd ?rs))
           \<Longrightarrow> Handle (EndorsementValidationHandler nxt) clientContext requestContext =
                 emit [Enter EndorsementValidation] (delegate nxt clientContext requestContext)"
    using validate_None_iff [of ?rs]
    by (simp del: Handle.simps add: Handle_EndorsementValidation)
  have e: "\<not> (\<forall>x\<in>set ?rs. resp_Status x = Status_SUCCESS \<and>
                             resp_Payload x = resp_Payload (hd ?rs))
           \<Longrightarrow> \<exists>err. validate ?rs = Some err \<and>
                 Handle (EndorsementValidationHandler nxt) clientContext requestContext =
                   (Returned,
                    requestContext\<lparr>Error :=
                      Some (Errors_WithMessage err ''endorsement validation failed'')\<rparr>,
                    [Enter EndorsementValidation,
                     SetError (Errors_WithMessage err ''endorsement validation failed'')])"
  proof -
    assume "\<not> (\<forall>x\<in>set ?rs. resp_Status x = Status_SUCCESS \<and>
                              resp_Payload x = resp_Payload (hd ?rs))"
    with validate_None_iff [of ?rs] obtain err where "validate ?rs = Some err"
      by (cases "validate ?rs") auto
    then show ?thesis by (simp del: Handle.simps add: Handle_EndorsementValidation)
  qed
  have f: "?ok \<Longrightarrow> ?rs = pre @ r # post \<Longrightarrow> resp_Status r \<noteq> Status_SUCCESS \<Longrightarrow>
         Handle (EndorsementValidationHandler nxt) clientContext requestContext =
           (Returned,
            requestContext\<lparr>Error := Some (Errors_WithMessage
              (Status_FromProposalResponse (Endorser r) (resp_Status r) (resp_Message r))
              ''endorsement validation failed'')\<rparr>,
            [Enter EndorsementValidation,
             SetError (Errors_WithMessage
               (Status_FromProposalResponse (Endorser r) (resp_Status r) (resp_Message r))
               ''endorsement validation failed'')])"
    using a by (simp del: Handle.simps add: Handle_EndorsementValidation)
  have g: "?ok \<Longrightarrow> ?rs = pre @ r # post \<Longrightarrow> resp_Status r = Status_SUCCESS \<Longrightarrow>
         resp_Payload r \<noteq> resp_Payload (hd (pre @ [r])) \<Longrightarrow>
         Handle (EndorsementValidationHandler nxt) clientContext requestContext =
           (Returned,
            requestContext\<lparr>Error := Some (Errors_WithMessage
              (Status_New EndorserClientStatus (ToInt32 EndorsementMismatch)
                 ''ProposalResponsePayloads do not match'')
              ''endorsement validation failed'')\<rparr>,
            [Enter EndorsementValidation,
             SetError (Errors_WithMessage
               (Status_New EndorserClientStatus (ToInt32 EndorsementMismatch)
                  ''ProposalResponsePayloads do not match'')
               ''endorsement validation failed'')])"
    using b by (simp del: Handle.simps add: Handle_EndorsementValidation)
  show ?thesis
    using a b c d e f g
    by (simp only: split: if_split) blast
qed

theorem validate_first_offender_wins_witness:
  "validate [resp ''P1'' 200 ''OK'' [1, 2], resp ''P2'' 500 ''access denied'' [1, 2],
             resp ''P3'' 200 ''OK'' [9]] =
     Some (Status_FromProposalResponse ''P2'' 500 ''access denied'') \<and>
   validate [resp ''P1'' 200 ''OK'' [1, 2], resp ''P2'' 200 ''OK'' [7],
             resp ''P3'' 500 ''access denied'' [1, 2]] =
     Some (Status_New EndorserClientStatus (ToInt32 EndorsementMismatch)
             ''ProposalResponsePayloads do not match'') \<and>
   validate [resp ''P1'' 200 ''OK'' [1, 2], resp ''P2'' 200 ''OK'' [1, 2]] = None \<and>
   Handle (EndorsementValidationHandler (Some (CallerHandler (\<lambda>cc rc. (Returned, rc, [])))))
     example_cc
     (responses_rc [resp ''P1'' 200 ''OK'' [1, 2], resp ''P2'' 500 ''access denied'' [1, 2],
                    resp ''P3'' 200 ''OK'' [9]]) =
     (Returned,
      (responses_rc [resp ''P1'' 200 ''OK'' [1, 2], resp ''P2'' 500 ''access denied'' [1, 2],
                     resp ''P3'' 200 ''OK'' [9]])
        \<lparr>Error := Some (Errors_WithMessage
                          (Status_FromProposalResponse ''P2'' 500 ''access denied'')
                          ''endorsement validation failed'')\<rparr>,
      [Enter EndorsementValidation,
       SetError (Errors_WithMessage (Status_FromProposalResponse ''P2'' 500 ''access denied'')
                   ''endorsement validation failed'')]) \<and>
   Handle (EndorsementValidationHandler (Some (CallerHandler (\<lambda>cc rc. (Returned, rc, [])))))
     example_cc
     (responses_rc [resp ''P1'' 200 ''OK'' [1, 2], resp ''P2'' 200 ''OK'' [7],
                    resp ''P3'' 500 ''access denied'' [1, 2]]) =
     (Returned,
      (responses_rc [resp ''P1'' 200 ''OK'' [1, 2], resp ''P2'' 200 ''OK'' [7],
                     resp ''P3'' 500 ''access denied'' [1, 2]])
        \<lparr>Error := Some (Errors_WithMessage
                          (Status_New EndorserClientStatus (ToInt32 EndorsementMismatch)
                             ''ProposalResponsePayloads do not match'')
                          ''endorsement validation failed'')\<rparr>,
      [Enter EndorsementValidation,
       SetError (Errors_WithMessage
                   (Status_New EndorserClientStatus (ToInt32 EndorsementMismatch)
                      ''ProposalResponsePayloads do not match'')
                   ''endorsement validation failed'')]) \<and>
   Handle (EndorsementValidationHandler (Some (CallerHandler (\<lambda>cc rc. (Returned, rc, [])))))
     example_cc
     (responses_rc [resp ''P1'' 200 ''OK'' [1, 2], resp ''P2'' 200 ''OK'' [1, 2]]) =
     (Returned,
      responses_rc [resp ''P1'' 200 ''OK'' [1, 2], resp ''P2'' 200 ''OK'' [1, 2]],
      [Enter EndorsementValidation, Enter CallerSupplied])"
  using validate_first_offender_wins [of "[resp ''P1'' 200 ''OK'' [1, 2]]"
          "resp ''P2'' 500 ''access denied'' [1, 2]" "[resp ''P3'' 200 ''OK'' [9]]" "[]"
          "responses_rc [resp ''P1'' 200 ''OK'' [1, 2], resp ''P2'' 500 ''access denied'' [1, 2],
                         resp ''P3'' 200 ''OK'' [9]]"
          "Some (CallerHandler (\<lambda>cc rc. (Returned, rc, [])))" example_cc]
        validate_first_offender_wins [of "[resp ''P1'' 200 ''OK'' [1, 2]]"
          "resp ''P2'' 200 ''OK'' [7]" "[resp ''P3'' 500 ''access denied'' [1, 2]]"
          "[resp ''P1'' 200 ''OK'' [1, 2], resp ''P2'' 200 ''OK'' [1, 2]]"
          "responses_rc [resp ''P1'' 200 ''OK'' [1, 2], resp ''P2'' 200 ''OK'' [7],
                         resp ''P3'' 500 ''access denied'' [1, 2]]"
          "Some (CallerHandler (\<lambda>cc rc. (Returned, rc, [])))" example_cc]
        validate_first_offender_wins [of "[]" "resp ''P1'' 200 ''OK'' [1, 2]" "[]" "[]"
          "responses_rc [resp ''P1'' 200 ''OK'' [1, 2], resp ''P2'' 200 ''OK'' [1, 2]]"
          "Some (CallerHandler (\<lambda>cc rc. (Returned, rc, [])))" example_cc]
  by (simp add: responses_rc_def ex_simps)

text \<open>
  Claim C10. For the empty list of responses \<^verbatim>\<open>validate\<close> returns nil, and the
  endorsement-validation handler, run on a request context with no responses, leaves
  the request context as it is and goes on to its next handler.
\<close>

theorem validate_empty_succeeds:
  "validate [] = None \<and>
   (Responses (Response requestContext) = [] \<longrightarrow>
      Handle (EndorsementValidationHandler nxt) clientContext requestContext =
        emit [Enter EndorsementValidation] (delegate nxt clientContext requestContext))"
  by (simp add: validate_def delegate_def)

theorem validate_empty_succeeds_witness:
  "Responses (Response example_rc) = [] \<and>
   Handle (EndorsementValidationHandler None) example_cc example_rc =
     (Returned, example_rc, [Enter EndorsementValidation])"
  using validate_empty_succeeds [of example_rc None example_cc]
  by (simp add: example_rc_def delegate_def emit_def)

section \<open>The endorsement handler\<close>

text \<open>
  Claim C4. With an empty target list the endorsement handler assigns the status error
  of group \<^verbatim>\<open>ClientStatus\<close> and code \<^verbatim>\<open>NoPeersFound\<close> (message "targets were not
  provided") and returns: its events hold no collaborator call and no entry into the
  next handler, whatever the next handler is.
\<close>

theorem endorsement_no_targets:
  "Targets requestContext = [] \<Longrightarrow>
   Handle (EndorsementHandler nxt) clientContext requestContext =
     (Returned,
      requestContext\<lparr>Error := Some (Status_New ClientStatus (ToInt32 NoPeersFound)
                                      ''targets were not provided'')\<rparr>,
      [Enter Endorsement,
       SetError (Status_New ClientStatus (ToInt32 NoPeersFound) ''targets were not provided'')])"
  by (simp add: emit_def setError_def)

theorem endorsement_no_targets_witness:
  "Targets (example_rc\<lparr>Targets := []\<rparr>) = [] \<and>
   Handle (EndorsementHandler (Some (CommitTxHandler None))) example_cc
     (example_rc\<lparr>Targets := []\<rparr>) =
     (Returned,
      example_rc\<lparr>Targets := [],
                  Error := Some (Status_New ClientStatus (ToInt32 NoPeersFound)
                                   ''targets were not provided'')\<rparr>,
      [Enter Endorsement,
       SetError (Status_New ClientStatus (ToInt32 NoPeersFound) ''targets were not provided'')])"
  using endorsement_no_targets [of "example_rc\<lparr>Targets := []\<rparr>" "Some (CommitTxHandler None)"
          example_cc]
  by simp

text \<open>
  Claim C6. When the header and the proposal are created and sending the proposal
  fails, the handler returns with the send error as terminal error, and the response
  holds the created proposal and its transaction identifier: both were assigned before
  the error was looked at. The responses are not recorded and the next handler is not
  entered.
\<close>

theorem endorsement_send_failure_keeps_proposal:
  assumes "Targets requestContext \<noteq> []"
    and "CreateTransactionHeader clientContext = Inr txh"
    and "CreateChaincodeInvokeProposal clientContext txh
           \<lparr>cir_ChaincodeID = ChaincodeID (Request requestContext),
            cir_Fcn = Fcn (Request requestContext),
            cir_Args = Args (Request requestContext),
            cir_TransientMap = TransientMap (Request requestContext)\<rparr> = Inr proposal"
    and "SendTransactionProposal clientContext proposal (Targets requestContext) = (resps, Some err)"
    and "Handle (EndorsementHandler nxt) clientContext requestContext = (s, rc', es)"
  shows "s = Returned \<and> Proposal (Response rc') = Some proposal \<and>
         TransactionID (Response rc') = TxnID proposal \<and> Error rc' = Some err \<and>
         Responses (Response rc') = Responses (Response requestContext) \<and>
         Enter Endorsement \<notin> set (tl es) \<and> last es = SetError err"
  using assms
  by (auto simp: emit_def setError_def createAndSendTransactionProposal_def
        PeersToTxnProcessors_def)

theorem endorsement_send_failure_keeps_proposal_witness:
  "Targets example_rc \<noteq> [] \<and>
   Handle (EndorsementHandler None)
     (example_cc\<lparr>SendTransactionProposal :=
                    (\<lambda>p targets. ([], Some (CollaboratorError ''peer unreachable'')))\<rparr>)
     example_rc =
     (Returned,
      example_rc\<lparr>Response := (Response example_rc)\<lparr>Proposal :=
                                   Some \<lparr>TxnID = ''tx1'', ProposalBytes = [1]\<rparr>,
                                 TransactionID := ''tx1''\<rparr>,
                  Error := Some (CollaboratorError ''peer unreachable'')\<rparr>,
      [Enter Endorsement, Call CallCreateTransactionHeader,
       Call (CallCreateChaincodeInvokeProposal ''header''
               \<lparr>cir_ChaincodeID = ''cc'', cir_Fcn = ''invoke'', cir_Args = [],
                cir_TransientMap = []\<rparr>),
       Call (CallSendTransactionProposal \<lparr>TxnID = ''tx1'', ProposalBytes = [1]\<rparr> [''P1'', ''P2'']),
       SetError (CollaboratorError ''peer unreachable'')]) \<and>
   Proposal (Response (example_rc\<lparr>Response := (Response example_rc)\<lparr>Proposal :=
                                   Some \<lparr>TxnID = ''tx1'', ProposalBytes = [1]\<rparr>,
                                 TransactionID := ''tx1''\<rparr>,
                  Error := Some (CollaboratorError ''peer unreachable'')\<rparr>)) =
     Some \<lparr>TxnID = ''tx1'', ProposalBytes = [1]\<rparr>"
proof -
  let ?cc = "example_cc\<lparr>SendTransactionProposal :=
                          (\<lambda>p targets. ([], Some (CollaboratorError ''peer unreachable'')))\<rparr>"
  let ?p = "\<lparr>TxnID = ''tx1'', ProposalBytes = [1]\<rparr>"
  let ?rc' = "example_rc\<lparr>Response := (Response example_rc)\<lparr>Proposal := Some ?p,
                                 TransactionID := ''tx1''\<rparr>,
                  Error := Some (CollaboratorError ''peer unreachable'')\<rparr>"
  have h1: "Targets example_rc \<noteq> []" by (simp add: example_rc_def)
  have h2: "CreateTransactionHeader ?cc = Inr ''header''" by (simp add: example_cc_def)
  have h3: "CreateChaincodeInvokeProposal ?cc ''header''
              \<lparr>cir_ChaincodeID = ChaincodeID (Request example_rc),
               cir_Fcn = Fcn (Request example_rc),
               cir_Args = Args (Request example_rc),
               cir_TransientMap = TransientMap (Request example_rc)\<rparr> = Inr ?p"
    by (simp add: example_cc_def)
  have h4: "SendTransactionProposal ?cc ?p (Targets example_rc) =
              ([], Some (CollaboratorError ''peer unreachable''))"
    by (simp add: example_cc_def)
  have h5: "Handle (EndorsementHandler None) ?cc example_rc =
     (Returned, ?rc',
      [Enter Endorsement, Call CallCreateTransactionHeader,
       Call (CallCreateChaincodeInvokeProposal ''header''
               \<lparr>cir_ChaincodeID = ''cc'', cir_Fcn = ''invoke'', cir_Args = [],
                cir_TransientMap = []\<rparr>),
       Call (CallSendTransactionProposal ?p [''P1'', ''P2'']),
       SetError (CollaboratorError ''peer unreachable'')])"
    by (simp add: ex_simps)
  from endorsement_send_failure_keeps_proposal [OF h1 h2 h3 h4 h5] h1 h5
  show ?thesis by simp
qed

text \<open>
  Claim C9. When creating the header fails, or creating the proposal fails,
  \<^verbatim>\<open>createAndSendTransactionProposal\<close> returns a nil proposal, and the handler reads
  \<^verbatim>\<open>proposal.TxnID\<close> before it looks at the error: the call panics, with both example
  inputs below, instead of returning with the terminal error set.
\<close>

theorem endorsement_panics_without_proposal:
  "fst (Handle (EndorsementHandler None)
          (example_cc\<lparr>CreateTransactionHeader := Inl (CollaboratorError ''no identity'')\<rparr>)
          example_rc) = Panicked \<and>
   Error (fst (snd (Handle (EndorsementHandler None)
          (example_cc\<lparr>CreateTransactionHeader := Inl (CollaboratorError ''no identity'')\<rparr>)
          example_rc))) = None \<and>
   fst (Handle (EndorsementHandler None)
          (example_cc\<lparr>CreateChaincodeInvokeProposal :=
                        (\<lambda>txh req. Inl (CollaboratorError ''marshal failed''))\<rparr>)
          example_rc) = Panicked"
  by (simp add: example_cc_def example_rc_def emit_def createAndSendTransactionProposal_def
        PeersToTxnProcessors_def)

section \<open>The target-resolution handler\<close>

text \<open>
  Claim C5. With a non-empty target list the handler does nothing but hand the
  unchanged request context to its next handler: its own events hold no call of the
  selection collaborator. With an empty target list it calls
  \<^verbatim>\<open>GetEndorsersForChaincode\<close> once, with the chaincode identifier of the request and
  with the peer filter as only option when the request context has one; on success it
  hands on the request context with the returned endorsers as targets, on failure it
  returns with the error wrapped in "Failed to get endorsing peers" and the target
  list as it was (empty).
\<close>

theorem target_resolution:
  "(Targets requestContext \<noteq> [] \<longrightarrow>
      Handle (ProposalProcessorHandler nxt) clientContext requestContext =
        emit [Enter TargetResolution] (delegate nxt clientContext requestContext)) \<and>
   (Targets requestContext = [] \<longrightarrow>
      (let selectionOpts = (case SelectionFilter requestContext of
                              None \<Rightarrow> [] | Some f \<Rightarrow> [WithPeerFilter f]);
           chaincodeIDs = [ChaincodeID (Request requestContext)];
           own = [Enter TargetResolution,
                  Call (CallGetEndorsersForChaincode chaincodeIDs selectionOpts)]
       in case GetEndorsersForChaincode clientContext chaincodeIDs selectionOpts of
            Inr endorsers \<Rightarrow>
              Handle (ProposalProcessorHandler nxt) clientContext requestContext =
                emit own (delegate nxt clientContext (requestContext\<lparr>Targets := endorsers\<rparr>))
          | Inl err \<Rightarrow>
              Handle (ProposalProcessorHandler nxt) clientContext requestContext =
                (Returned,
                 requestContext\<lparr>Error :=
                   Some (Errors_WithMessage err ''Failed to get endorsing peers'')\<rparr>,
                 own @ [SetError (Errors_WithMessage err ''Failed to get endorsing peers'')])))"
  by (simp add: emit_emit emit_setError delegate_def Let_def split: sum.splits option.splits)

theorem target_resolution_witness:
  "Targets example_rc \<noteq> [] \<and>
   Handle (ProposalProcessorHandler None) example_cc example_rc =
     (Returned, example_rc, [Enter TargetResolution]) \<and>
   Targets (example_rc\<lparr>Targets := []\<rparr>) = [] \<and>
   Handle (ProposalProcessorHandler None) example_cc (example_rc\<lparr>Targets := []\<rparr>) =
     (Returned, example_rc,
      [Enter TargetResolution, Call (CallGetEndorsersForChaincode [''cc''] [])]) \<and>
   Handle (ProposalProcessorHandler None)
     (example_cc\<lparr>GetEndorsersForChaincode :=
                    (\<lambda>ids opts. Inl (CollaboratorError ''no chaincode deployed''))\<rparr>)
     (example_rc\<lparr>Targets := []\<rparr>) =
     (Returned,
      example_rc\<lparr>Targets := [],
                  Error := Some (Errors_WithMessage (CollaboratorError ''no chaincode deployed'')
                                   ''Failed to get endorsing peers'')\<rparr>,
      [Enter TargetResolution, Call (CallGetEndorsersForChaincode [''cc''] []),
       SetError (Errors_WithMessage (CollaboratorError ''no chaincode deployed'')
                   ''Failed to get endorsing peers'')])"
  using target_resolution [of example_rc None example_cc]
        target_resolution [of "example_rc\<lparr>Targets := []\<rparr>" None example_cc]
        target_resolution [of "example_rc\<lparr>Targets := []\<rparr>" None
          "example_cc\<lparr>GetEndorsersForChaincode :=
                        (\<lambda>ids opts. Inl (CollaboratorError ''no chaincode deployed''))\<rparr>"]
  by (simp add: example_cc_def example_rc_def delegate_def emit_def)

section \<open>The commit handler\<close>

lemma broadcast_calls_no_unregister:
  "filter is_Unregister (map Call (fst (createAndSendTransaction cc p rs))) = []"
  by (simp add: createAndSendTransaction_def Let_def split: sum.splits)

text \<open>
  Claim C2. The events of the commit handler start with the registration for the
  transaction identifier of the response. If the registration fails, the terminal
  error is set and nothing else happens: no broadcast, no unregistration. If it
  succeeds, the calls that assemble and broadcast the transaction come after it; then
  come either nothing, or one assignment of the terminal error, or the events of the
  next handler; and, unless the handler never returns, the last event is the
  unregistration of that registration. Apart from what the next handler does, there is
  exactly one unregistration.
\<close>

theorem commit_registers_first_unregisters_once:
  assumes "Handle (CommitTxHandler nxt) clientContext requestContext = (s, rc', es)"
  shows "case RegisterTxStatusEvent clientContext (TransactionID (Response requestContext)) of
           Inl err \<Rightarrow>
             es = [Enter CommitAndConfirm,
                   Call (CallRegisterTxStatusEvent (TransactionID (Response requestContext))),
                   SetError (Errors_Wrap err ''error registering for TxStatus event'')]
         | Inr (reg, statusNotifier) \<Rightarrow>
             (\<exists>rest.
                es = [Enter CommitAndConfirm,
                      Call (CallRegisterTxStatusEvent (TransactionID (Response requestContext)))] @
                     map Call (fst (createAndSendTransaction clientContext
                                      (Proposal (Response requestContext))
                                      (Responses (Response requestContext)))) @
                     rest @ (if s = Blocked then [] else [Call (CallUnregister reg)]) \<and>
                (rest = [] \<or> (\<exists>e. rest = [SetError e]) \<or>
                 (\<exists>h rc1. nxt = Some h \<and> rest = snd (snd (Handle h clientContext rc1)))) \<and>
                length (filter is_Unregister es) =
                  length (filter is_Unregister rest) + (if s = Blocked then 0 else 1))"
proof (cases "RegisterTxStatusEvent clientContext (TransactionID (Response requestContext))")
  case (Inl err)
  with assms show ?thesis
    by (simp add: Handle_Commit emit_setError)
next
  case (Inr p)
  obtain reg statusNotifier where p: "p = (reg, statusNotifier)" by (cases p)
  define bc where "bc = fst (createAndSendTransaction clientContext
                               (Proposal (Response requestContext))
                               (Responses (Response requestContext)))"
  define inner where "inner =
    (case snd (createAndSendTransaction clientContext (Proposal (Response requestContext))
                 (Responses (Response requestContext))) of
       Inl err \<Rightarrow> setError (Errors_Wrap err ''CreateAndSendTransaction failed'') requestContext
     | Inr ack \<Rightarrow>
         (case select statusNotifier (Ctx requestContext) of
            CaseStatus txStatus \<Rightarrow>
              if ev_TxValidationCode txStatus \<noteq> TxValidationCode_VALID then
                setError (Status_New EventServerStatus (Int32 (ev_TxValidationCode txStatus))
                            ''received invalid transaction'')
                  (requestContext\<lparr>Response := (Response requestContext)\<lparr>TxValidationCode :=
                                      ev_TxValidationCode txStatus\<rparr>\<rparr>)
              else
                delegate nxt clientContext
                  (requestContext\<lparr>Response := (Response requestContext)\<lparr>TxValidationCode :=
                                      ev_TxValidationCode txStatus\<rparr>\<rparr>)
          | CaseDone \<Rightarrow>
              setError (Errors_New ''Execute didn't receive block event'')
                requestContext
          | NoCase \<Rightarrow> (Blocked, requestContext, [])))"
  obtain si rci esi where inner: "inner = (si, rci, esi)" by (cases inner)
  have "Handle (CommitTxHandler nxt) clientContext requestContext =
          deferred (Call (CallUnregister reg))
            (emit ([Enter CommitAndConfirm,
                    Call (CallRegisterTxStatusEvent (TransactionID (Response requestContext)))] @
                   map Call bc) inner)"
    by (subst Handle_Commit) (simp add: Inr p emit_emit emit_deferred inner_def bc_def)
  with assms inner have s: "s = si"
    and es: "es = [Enter CommitAndConfirm,
                   Call (CallRegisterTxStatusEvent (TransactionID (Response requestContext)))] @
                  map Call bc @ esi @ (if s = Blocked then [] else [Call (CallUnregister reg)])"
    by (auto simp: emit_triple deferred_triple split: if_splits)
  have shape: "esi = [] \<or> (\<exists>e. esi = [SetError e]) \<or>
               (\<exists>h rc1. nxt = Some h \<and> esi = snd (snd (Handle h clientContext rc1)))"
  proof -
    have "(\<exists>e rc1. inner = setError e rc1) \<or>
          (\<exists>rc1. inner = delegate nxt clientContext rc1) \<or>
          inner = (Blocked, requestContext, [])"
      unfolding inner_def
      by (simp split: sum.splits select_case.splits) blast
    then consider
        (err) e rc1 where "inner = setError e rc1"
      | (delegated) rc1 where "inner = delegate nxt clientContext rc1"
      | (blocked) "inner = (Blocked, requestContext, [])"
      by blast
    then show ?thesis
    proof cases
      case err
      with inner show ?thesis by (auto simp: setError_def)
    next
      case delegated
      show ?thesis
      proof (cases nxt)
        case None
        with delegated inner show ?thesis by (auto simp: delegate_def)
      next
        case (Some h)
        from delegated inner Some have "Handle h clientContext rc1 = (si, rci, esi)"
          by (simp add: delegate_def)
        then have "esi = snd (snd (Handle h clientContext rc1))"
          by simp
        with Some show ?thesis by blast
      qed
    next
      case blocked
      with inner show ?thesis by auto
    qed
  qed
  have count: "length (filter is_Unregister es) =
                 length (filter is_Unregister esi) + (if s = Blocked then 0 else 1)"
    by (subst es) (simp add: bc_def broadcast_calls_no_unregister)
  from es shape count show ?thesis
    unfolding Inr p bc_def by (simp only: sum.case prod.case) blast
qed

theorem commit_registers_first_unregisters_once_witness:
  "Handle (CommitTxHandler None) example_cc example_rc =
     (Returned, example_rc,
      [Enter CommitAndConfirm, Call (CallRegisterTxStatusEvent []),
       Call (CallCreateTransaction \<lparr>tr_Proposal = None, tr_ProposalResponses = []\<rparr>),
       Call (CallSendTransaction ''transaction''),
       Call (CallUnregister 7)]) \<and>
   Handle (CommitTxHandler None) no_events_cc example_rc =
     (Returned,
      example_rc\<lparr>Error := Some (Errors_Wrap (CollaboratorError ''event hub unreachable'')
                                   ''error registering for TxStatus event'')\<rparr>,
      [Enter CommitAndConfirm, Call (CallRegisterTxStatusEvent []),
       SetError (Errors_Wrap (CollaboratorError ''event hub unreachable'')
                   ''error registering for TxStatus event'')])"
proof -
  have h1: "Handle (CommitTxHandler None) example_cc example_rc =
     (Returned, example_rc,
      [Enter CommitAndConfirm, Call (CallRegisterTxStatusEvent []),
       Call (CallCreateTransaction \<lparr>tr_Proposal = None, tr_ProposalResponses = []\<rparr>),
       Call (CallSendTransaction ''transaction''),
       Call (CallUnregister 7)])"
    by (simp add: ex_simps)
  have h2: "Handle (CommitTxHandler None) no_events_cc example_rc =
     (Returned,
      example_rc\<lparr>Error := Some (Errors_Wrap (CollaboratorError ''event hub unreachable'')
                                   ''error registering for TxStatus event'')\<rparr>,
      [Enter CommitAndConfirm, Call (CallRegisterTxStatusEvent []),
       SetError (Errors_Wrap (CollaboratorError ''event hub unreachable'')
                   ''error registering for TxStatus event'')])"
    by (simp add: no_events_cc_def ex_simps)
  from commit_registers_first_unregisters_once [OF h1]
       commit_registers_first_unregisters_once [OF h2] h1 h2
  show ?thesis by simp
qed

text \<open>
  Claim C7. After a successful registration and broadcast, the \<^verbatim>\<open>select\<close> decides. The
  notification arrives first when one is pending on the status channel and \<^verbatim>\<open>Done\<close>
  does not fire before it. If then its validation code is not VALID, the code is stored
  in the response, the terminal error is the status error of group
  \<^verbatim>\<open>EventServerStatus\<close> carrying that code, and the handler returns without entering
  the next handler; if the code is VALID, it is stored in \<^verbatim>\<open>TxValidationCode\<close> and the
  next handler runs on that request context. The cancellation signal fires first when
  \<^verbatim>\<open>Done\<close> fires before the notification, or fires at all while no notification ever
  arrives: the terminal error is then "Execute didn't receive block event" and the
  handler returns. In all three the registration is released last.
\<close>

theorem commit_wait_outcomes:
  assumes "RegisterTxStatusEvent clientContext (TransactionID (Response requestContext)) =
             Inr (reg, statusNotifier)"
    and "createAndSendTransaction clientContext (Proposal (Response requestContext))
           (Responses (Response requestContext)) = (calls, Inr ack)"
  shows "(statusNotifier = Some txStatus \<and> Ctx requestContext \<noteq> DoneFirst \<and>
          ev_TxValidationCode txStatus \<noteq> TxValidationCode_VALID \<longrightarrow>
            Handle (CommitTxHandler nxt) clientContext requestContext =
              (Returned,
               requestContext\<lparr>Response := (Response requestContext)\<lparr>TxValidationCode :=
                                  ev_TxValidationCode txStatus\<rparr>,
                               Error := Some (Status_New EventServerStatus
                                               (Int32 (ev_TxValidationCode txStatus))
                                               ''received invalid transaction'')\<rparr>,
               [Enter CommitAndConfirm,
                Call (CallRegisterTxStatusEvent (TransactionID (Response requestContext)))] @
               map Call calls @
               [SetError (Status_New EventServerStatus (Int32 (ev_TxValidationCode txStatus))
                            ''received invalid transaction''),
                Call (CallUnregister reg)])) \<and>
         (statusNotifier = Some txStatus \<and> Ctx requestContext \<noteq> DoneFirst \<and>
          ev_TxValidationCode txStatus = TxValidationCode_VALID \<longrightarrow>
            Handle (CommitTxHandler nxt) clientContext requestContext =
              deferred (Call (CallUnregister reg))
                (emit ([Enter CommitAndConfirm,
                        Call (CallRegisterTxStatusEvent (TransactionID (Response requestContext)))] @
                       map Call calls)
                   (delegate nxt clientContext
                      (requestContext\<lparr>Response := (Response requestContext)\<lparr>TxValidationCode :=
                                          TxValidationCode_VALID\<rparr>\<rparr>)))) \<and>
         (Ctx requestContext = DoneFirst \<or>
          (statusNotifier = None \<and> Ctx requestContext = DoneLater) \<longrightarrow>
            Handle (CommitTxHandler nxt) clientContext requestContext =
              (Returned,
               requestContext\<lparr>Error := Some (Errors_New ''Execute didn't receive block event'')\<rparr>,
               [Enter CommitAndConfirm,
                Call (CallRegisterTxStatusEvent (TransactionID (Response requestContext)))] @
               map Call calls @
               [SetError (Errors_New ''Execute didn't receive block event''),
                Call (CallUnregister reg)]))"
proof -
  have status: "statusNotifier = Some txStatus \<Longrightarrow> Ctx requestContext \<noteq> DoneFirst \<Longrightarrow>
                select statusNotifier (Ctx requestContext) = CaseStatus txStatus"
    by (cases "Ctx requestContext") simp_all
  have cancelled: "Ctx requestContext = DoneFirst \<or>
              (statusNotifier = None \<and> Ctx requestContext = DoneLater) \<Longrightarrow>
              select statusNotifier (Ctx requestContext) = CaseDone"
    by (cases statusNotifier) auto
  show ?thesis
    using assms status cancelled
    by (auto simp: emit_deferred emit_emit emit_setError emit_triple deferred_triple
                   delegate_def Let_def
             split: option.splits)
qed

theorem commit_wait_outcomes_witness:
  "Handle (CommitTxHandler (Some (CallerHandler (\<lambda>cc rc. (Returned, rc, [])))))
     invalid_cc example_rc =
     (Returned,
      example_rc\<lparr>Response := (Response example_rc)\<lparr>TxValidationCode := 11\<rparr>,
                  Error := Some (Status_New EventServerStatus (Int32 11)
                                   ''received invalid transaction'')\<rparr>,
      [Enter CommitAndConfirm, Call (CallRegisterTxStatusEvent []),
       Call (CallCreateTransaction \<lparr>tr_Proposal = None, tr_ProposalResponses = []\<rparr>),
       Call (CallSendTransaction ''transaction''),
       SetError (Status_New EventServerStatus (Int32 11) ''received invalid transaction''),
       Call (CallUnregister 7)]) \<and>
   Handle (CommitTxHandler (Some (CallerHandler (\<lambda>cc rc. (Returned, rc, [])))))
     example_cc example_rc =
     (Returned, example_rc,
      [Enter CommitAndConfirm, Call (CallRegisterTxStatusEvent []),
       Call (CallCreateTransaction \<lparr>tr_Proposal = None, tr_ProposalResponses = []\<rparr>),
       Call (CallSendTransaction ''transaction''),
       Enter CallerSupplied,
       Call (CallUnregister 7)]) \<and>
   Handle (CommitTxHandler (Some (CallerHandler (\<lambda>cc rc. (Returned, rc, [])))))
     example_cc (example_rc\<lparr>Ctx := DoneFirst\<rparr>) =
     (Returned,
      example_rc\<lparr>Error := Some (Errors_New ''Execute didn't receive block event''),
                  Ctx := DoneFirst\<rparr>,
      [Enter CommitAndConfirm, Call (CallRegisterTxStatusEvent []),
       Call (CallCreateTransaction \<lparr>tr_Proposal = None, tr_ProposalResponses = []\<rparr>),
       Call (CallSendTransaction ''transaction''),
       SetError (Errors_New ''Execute didn't receive block event''),
       Call (CallUnregister 7)]) \<and>
   Handle (CommitTxHandler (Some (CallerHandler (\<lambda>cc rc. (Returned, rc, [])))))
     silent_cc (example_rc\<lparr>Ctx := DoneLater\<rparr>) =
     (Returned,
      example_rc\<lparr>Error := Some (Errors_New ''Execute didn't receive block event''),
                  Ctx := DoneLater\<rparr>,
      [Enter CommitAndConfirm, Call (CallRegisterTxStatusEvent []),
       Call (CallCreateTransaction \<lparr>tr_Proposal = None, tr_ProposalResponses = []\<rparr>),
       Call (CallSendTransaction ''transaction''),
       SetError (Errors_New ''Execute didn't receive block event''),
       Call (CallUnregister 7)])"
proof -
  let ?nxt = "Some (CallerHandler (\<lambda>cc rc. (Returned, rc, [])))"
  let ?calls = "[CallCreateTransaction \<lparr>tr_Proposal = None, tr_ProposalResponses = []\<rparr>,
                 CallSendTransaction ''transaction'']"
  have r1: "RegisterTxStatusEvent invalid_cc (TransactionID (Response example_rc)) =
              Inr (7, Some \<lparr>ev_TxID = [], ev_TxValidationCode = 11\<rparr>)"
    by (simp add: invalid_cc_def example_cc_def example_rc_def)
  have b1: "createAndSendTransaction invalid_cc (Proposal (Response example_rc))
              (Responses (Response example_rc)) = (?calls, Inr ''ack'')"
    by (simp add: invalid_cc_def ex_simps)
  have r2: "RegisterTxStatusEvent example_cc (TransactionID (Response example_rc)) =
              Inr (7, Some \<lparr>ev_TxID = [], ev_TxValidationCode = 0\<rparr>)"
    by (simp add: example_cc_def example_rc_def)
  have b2: "createAndSendTransaction example_cc (Proposal (Response example_rc))
              (Responses (Response example_rc)) = (?calls, Inr ''ack'')"
    by (simp add: ex_simps)
  have r3: "RegisterTxStatusEvent example_cc
              (TransactionID (Response (example_rc\<lparr>Ctx := DoneFirst\<rparr>))) =
              Inr (7, Some \<lparr>ev_TxID = [], ev_TxValidationCode = 0\<rparr>)"
    by (simp add: example_cc_def example_rc_def)
  have b3: "createAndSendTransaction example_cc
              (Proposal (Response (example_rc\<lparr>Ctx := DoneFirst\<rparr>)))
              (Responses (Response (example_rc\<lparr>Ctx := DoneFirst\<rparr>))) = (?calls, Inr ''ack'')"
    by (simp add: ex_simps)
  have r4: "RegisterTxStatusEvent silent_cc
              (TransactionID (Response (example_rc\<lparr>Ctx := DoneLater\<rparr>))) = Inr (7, None)"
    by (simp add: silent_cc_def example_cc_def example_rc_def)
  have b4: "createAndSendTransaction silent_cc
              (Proposal (Response (example_rc\<lparr>Ctx := DoneLater\<rparr>)))
              (Responses (Response (example_rc\<lparr>Ctx := DoneLater\<rparr>))) = (?calls, Inr ''ack'')"
    by (simp add: silent_cc_def ex_simps)
  show ?thesis
    using commit_wait_outcomes [OF r1 b1, of "\<lparr>ev_TxID = [], ev_TxValidationCode = 11\<rparr>" ?nxt]
          commit_wait_outcomes [OF r2 b2, of "\<lparr>ev_TxID = [], ev_TxValidationCode = 0\<rparr>" ?nxt]
          commit_wait_outcomes [OF r3 b3, of "\<lparr>ev_TxID = [], ev_TxValidationCode = 0\<rparr>" ?nxt]
          commit_wait_outcomes [OF r4 b4, of "\<lparr>ev_TxID = [], ev_TxValidationCode = 0\<rparr>" ?nxt]
    by (simp add: example_rc_def TxValidationCode_VALID_def emit_def deferred_def delegate_def)
qed

section \<open>Short circuit on error\<close>

lemma errors_set_append: "errors_set (as @ bs) = errors_set as @ errors_set bs"
  by (induction as rule: errors_set.induct) auto

lemma errors_set_calls: "errors_set (map Call cs) = []"
  by (induction cs) auto

lemma short_circuited_append:
  "errors_set as = [] \<Longrightarrow> short_circuited (as @ bs) = short_circuited bs"
  by (induction as rule: errors_set.induct) auto

lemma unregisters_no_error: "list_all is_Unregister es \<Longrightarrow> errors_set es = []"
  by (induction es rule: errors_set.induct) auto

lemma short_circuited_snoc:
  "short_circuited es \<Longrightarrow> short_circuited (es @ [Call (CallUnregister reg)])"
  by (induction es rule: short_circuited.induct) auto

lemma final_plain: "error_is_final (s, rc, [])"
  by (simp add: error_is_final_def)

lemma final_setError: "error_is_final (setError err rc)"
  by (simp add: error_is_final_def setError_def)

lemma final_emit:
  "errors_set pre = [] \<Longrightarrow> error_is_final r \<Longrightarrow> error_is_final (emit pre r)"
  by (auto simp: error_is_final_def emit_def errors_set_append short_circuited_append
           split: prod.splits)

lemma final_deferred:
  "error_is_final r \<Longrightarrow> error_is_final (deferred (Call (CallUnregister reg)) r)"
  by (auto simp: error_is_final_def deferred_def errors_set_append short_circuited_snoc
           split: prod.splits)

lemma final_caller: "error_is_final (s, rc, Enter CallerSupplied # map Call calls)"
  by (simp add: error_is_final_def errors_set_calls short_circuited_append [of "map Call calls" "[]", simplified])

lemma final_delegate:
  "(\<And>h rc. h \<in> set_option nxt \<Longrightarrow> error_is_final (Handle h cc rc)) \<Longrightarrow>
   error_is_final (delegate nxt cc rc)"
  by (cases nxt) (simp_all add: delegate_def final_plain)

lemma final_Endorsement:
  assumes "\<And>rc. error_is_final (delegate nxt cc rc)"
  shows "error_is_final (Handle (EndorsementHandler nxt) cc rc)"
  unfolding Handle_Endorsement
  by (auto intro!: final_emit final_setError final_plain assms simp: errors_set_calls
           split: prod.splits option.splits)

lemma final_Commit:
  assumes "\<And>rc. error_is_final (delegate nxt cc rc)"
  shows "error_is_final (Handle (CommitTxHandler nxt) cc rc)"
  unfolding Handle_Commit
  by (auto intro!: final_emit final_deferred final_setError final_plain assms
           simp: errors_set_calls split: prod.splits sum.splits select_case.splits)

lemma final_TargetResolution:
  assumes "\<And>rc. error_is_final (delegate nxt cc rc)"
  shows "error_is_final (Handle (ProposalProcessorHandler nxt) cc rc)"
  using assms
  by (auto intro!: final_emit final_setError final_plain
           simp: delegate_def Let_def split: sum.splits option.splits)

lemma final_EndorsementValidation:
  assumes "\<And>rc. error_is_final (delegate nxt cc rc)"
  shows "error_is_final (Handle (EndorsementValidationHandler nxt) cc rc)"
  using assms
  by (auto intro!: final_emit final_setError final_plain
           simp: delegate_def split: option.splits)

lemma final_SignatureValidation:
  assumes "\<And>rc. error_is_final (delegate nxt cc rc)"
  shows "error_is_final (Handle (SignatureValidationHandler nxt) cc rc)"
  using assms
  by (auto intro!: final_emit final_setError final_plain
           simp: delegate_def split: option.splits)

lemma final_Handle: "error_is_final (Handle h cc rc)"
proof (induction h arbitrary: rc)
  case (CallerHandler f)
  show ?case by (simp add: final_caller split: prod.splits)
qed (blast intro: final_TargetResolution final_Endorsement final_EndorsementValidation
       final_SignatureValidation final_Commit final_delegate)+

lemma short_circuited_split:
  "short_circuited (pre @ SetError e # post) \<Longrightarrow> list_all is_Unregister post"
  by (induction pre rule: short_circuited.induct) auto

text \<open>
  Claim C8. In the events of any call of \<^verbatim>\<open>Handle\<close>, on any chain of handlers, an
  assignment of the terminal error is followed by nothing but deferred
  \<^verbatim>\<open>Unregister\<close> calls: the handler that set the error did not enter its next handler,
  no later handler ran and the error was not assigned again. No assignment of the
  error precedes it, the call returns, and the request context it leaves holds that
  error.
\<close>

theorem error_short_circuits:
  assumes "Handle h clientContext requestContext = (s, rc', es)"
    and "es = pre @ SetError e # post"
  shows "list_all is_Unregister post \<and> errors_set pre = [] \<and> Error rc' = Some e \<and> s = Returned"
proof -
  from final_Handle [of h clientContext requestContext] assms
  have sc: "short_circuited (pre @ SetError e # post)"
    and len: "length (errors_set (pre @ SetError e # post)) \<le> 1"
    and err: "list_all (\<lambda>x. Error rc' = Some x) (errors_set (pre @ SetError e # post))"
    and ret: "errors_set (pre @ SetError e # post) = [] \<or> s = Returned"
    by (simp_all add: error_is_final_def)
  from sc have "list_all is_Unregister post" by (rule short_circuited_split)
  moreover from len have "errors_set pre = []" by (simp add: errors_set_append)
  moreover from err have "Error rc' = Some e" by (simp add: errors_set_append)
  moreover from ret have "s = Returned" by (simp add: errors_set_append)
  ultimately show ?thesis by simp
qed

theorem error_short_circuits_witness:
  "Handle (CommitTxHandler (Some (EndorsementHandler
             (Some (CallerHandler (\<lambda>cc rc. (Returned, rc, [CallCreateTransactionHeader])))))))
     example_cc (example_rc\<lparr>Targets := []\<rparr>) =
     (Returned,
      example_rc\<lparr>Targets := [],
                  Error := Some (Status_New ClientStatus (ToInt32 NoPeersFound)
                                   ''targets were not provided'')\<rparr>,
      [Enter CommitAndConfirm, Call (CallRegisterTxStatusEvent []),
       Call (CallCreateTransaction \<lparr>tr_Proposal = None, tr_ProposalResponses = []\<rparr>),
       Call (CallSendTransaction ''transaction''),
       Enter Endorsement] @
      SetError (Status_New ClientStatus (ToInt32 NoPeersFound) ''targets were not provided'') #
      [Call (CallUnregister 7)]) \<and>
   list_all is_Unregister [Call (CallUnregister 7)]"
proof -
  have h: "Handle (CommitTxHandler (Some (EndorsementHandler
             (Some (CallerHandler (\<lambda>cc rc. (Returned, rc, [CallCreateTransactionHeader])))))))
     example_cc (example_rc\<lparr>Targets := []\<rparr>) =
     (Returned,
      example_rc\<lparr>Targets := [],
                  Error := Some (Status_New ClientStatus (ToInt32 NoPeersFound)
                                   ''targets were not provided'')\<rparr>,
      [Enter CommitAndConfirm, Call (CallRegisterTxStatusEvent []),
       Call (CallCreateTransaction \<lparr>tr_Proposal = None, tr_ProposalResponses = []\<rparr>),
       Call (CallSendTransaction ''transaction''),
       Enter Endorsement] @
      SetError (Status_New ClientStatus (ToInt32 NoPeersFound) ''targets were not provided'') #
      [Call (CallUnregister 7)])"
    by (simp add: ex_simps)
  from error_short_circuits [OF h refl] h show ?thesis by simp
qed

section \<open>The chain builders\<close>

text \<open>
  Claim C3, as the code has it. Both builders put a signature-validation handler after
  endorsement validation: the query chain is target resolution, endorsement,
  endorsement validation, signature validation, and the execute chain is these four
  followed by commit-and-confirm. Of the handlers passed to a builder only the first
  becomes the continuation of the last stage; with none passed the last stage is
  terminal.
\<close>

theorem chain_builders:
  "NewQueryHandler nxt =
     ProposalProcessorHandler (Some (EndorsementHandler (Some (EndorsementValidationHandler
       (Some (SignatureValidationHandler (getNext nxt))))))) \<and>
   NewExecuteHandler nxt =
     ProposalProcessorHandler (Some (EndorsementHandler (Some (EndorsementValidationHandler
       (Some (SignatureValidationHandler (Some (CommitTxHandler (getNext nxt))))))))) \<and>
   getNext [] = None \<and> getNext (h # rest) = Some h \<and>
   stages (NewQueryHandler []) =
     [TargetResolution, Endorsement, EndorsementValidation, SignatureValidation] \<and>
   stages (NewQueryHandler (h # rest)) =
     [TargetResolution, Endorsement, EndorsementValidation, SignatureValidation] @ stages h \<and>
   stages (NewExecuteHandler []) =
     [TargetResolution, Endorsement, EndorsementValidation, SignatureValidation,
      CommitAndConfirm] \<and>
   stages (NewExecuteHandler (h # rest)) =
     [TargetResolution, Endorsement, EndorsementValidation, SignatureValidation,
      CommitAndConfirm] @ stages h"
  by (simp add: NewQueryHandler_def NewExecuteHandler_def NewProposalProcessorHandler_def
        NewEndorsementHandler_def NewEndorsementValidationHandler_def
        NewSignatureValidationHandler_def NewCommitHandler_def getNext_def)

text \<open>
  The chains built with no trailing handler are not the three, respectively four,
  stages alone: signature validation is a stage of both.
\<close>

theorem chain_builders_counterexample:
  "stages (NewQueryHandler []) \<noteq> [TargetResolution, Endorsement, EndorsementValidation] \<and>
   NewQueryHandler [] \<noteq>
     ProposalProcessorHandler (Some (EndorsementHandler (Some
       (EndorsementValidationHandler None)))) \<and>
   stages (NewExecuteHandler []) \<noteq>
     [TargetResolution, Endorsement, EndorsementValidation, CommitAndConfirm] \<and>
   NewExecuteHandler [] \<noteq>
     ProposalProcessorHandler (Some (EndorsementHandler (Some
       (EndorsementValidationHandler (Some (CommitTxHandler None))))))"
  by (simp add: NewQueryHandler_def NewExecuteHandler_def NewProposalProcessorHandler_def
        NewEndorsementHandler_def NewEndorsementValidationHandler_def
        NewSignatureValidationHandler_def NewCommitHandler_def getNext_def)

end
